theory Spec2Isabelle
  imports Main "HOL-Library.Word" "HOL-Library.Sublist"
begin

section \<open>Values shared by the client's operations\<close>

subsection \<open>JSON values (nlohmann::json)\<close>

text \<open>
  An object is kept as an association list read with \<open>map_of\<close>; numbers are the integers
  (no operation below computes with a number).
\<close>

datatype json =
    JNull
  | JBool bool
  | JNumber int
  | JString string
  | JArray "json list"
  | JObject "(string \<times> json) list"

subsection \<open>Exceptions\<close>

text \<open>
  C++ can throw a value of any type. The handlers of \<open>client.cpp\<close> have two kinds of
  catch clause: \<open>catch (const std::exception& e)\<close>, which sees only exceptions derived from
  \<open>std::exception\<close> (and reads \<open>e.what()\<close>), and \<open>catch (...)\<close>, which sees everything.
  So an exception is either a \<open>std::exception\<close> with its \<open>what()\<close> text, or some other
  thrown object.
\<close>

datatype exn =
    StdException string
  | NonStdException

text \<open>\<open>json::type_name()\<close>, used in the texts of the library's type errors.\<close>

fun type_name :: "json \<Rightarrow> string" where
  "type_name JNull = ''null''"
| "type_name (JBool _) = ''boolean''"
| "type_name (JNumber _) = ''number''"
| "type_name (JString _) = ''string''"
| "type_name (JArray _) = ''array''"
| "type_name (JObject _) = ''object''"

text \<open>\<open>j.contains(key)\<close> followed by \<open>j[key]\<close>: the member, when \<open>j\<close> is an object that has it.\<close>

fun json_find :: "json \<Rightarrow> string \<Rightarrow> json option" where
  "json_find (JObject kvs) key = map_of kvs key"
| "json_find _ key = None"

definition contains :: "json \<Rightarrow> string \<Rightarrow> bool" where
  "contains j key = (json_find j key \<noteq> None)"

text \<open>\<open>j.get<std::string>()\<close>: a type error (302) unless \<open>j\<close> is a string.\<close>

fun get_string :: "json \<Rightarrow> exn + string" where
  "get_string (JString s) = Inr s"
| "get_string j =
     Inl (StdException (''[json.exception.type_error.302] type must be string, but is '' @ type_name j))"

text \<open>\<open>j.get<bool>()\<close>.\<close>

fun get_bool :: "json \<Rightarrow> exn + bool" where
  "get_bool (JBool b) = Inr b"
| "get_bool j =
     Inl (StdException (''[json.exception.type_error.302] type must be boolean, but is '' @ type_name j))"

text \<open>\<open>j.get<std::vector<std::string>>()\<close>: every element is converted in turn.\<close>

fun get_strings :: "json list \<Rightarrow> exn + string list" where
  "get_strings [] = Inr []"
| "get_strings (j # js) =
     (case get_string j of
        Inl e \<Rightarrow> Inl e
      | Inr s \<Rightarrow> (case get_strings js of Inl e \<Rightarrow> Inl e | Inr ss \<Rightarrow> Inr (s # ss)))"

fun get_string_vector :: "json \<Rightarrow> exn + string list" where
  "get_string_vector (JArray js) = get_strings js"
| "get_string_vector j =
     Inl (StdException (''[json.exception.type_error.302] type must be array, but is '' @ type_name j))"

text \<open>
  \<open>j.value(key, default)\<close> with a string default: a type error (306) unless \<open>j\<close> is an
  object; the default when the key is absent; the member converted to a string otherwise.
\<close>

fun json_value :: "json \<Rightarrow> string \<Rightarrow> string \<Rightarrow> exn + string" where
  "json_value (JObject kvs) key dflt =
     (case map_of kvs key of None \<Rightarrow> Inr dflt | Some v \<Rightarrow> get_string v)"
| "json_value j key dflt =
     Inl (StdException (''[json.exception.type_error.306] cannot use value() with '' @ type_name j))"

subsection \<open>Protocol data\<close>

record JsonRpcError =
  code :: int
  message :: string

text \<open>What a request handler returns: a result and, optionally, a protocol-level error.\<close>

type_synonym rpc_result = "json \<times> JsonRpcError option"

datatype ConnectionState = Disconnected | Connecting | Connected | Error

record ToolResultObject =
  textResultForLlm :: string
  binaryResultsForLlm :: "json list"
  resultType :: string
  error :: "string option"
  sessionLog :: "string option"
  toolTelemetry :: json

record ToolInvocation =
  inv_sessionId :: string
  toolCallId :: string
  toolName :: string
  arguments :: json

text \<open>A tool handler is caller-supplied code: it returns a result or throws.\<close>

type_synonym ToolHandler = "json \<Rightarrow> ToolInvocation \<Rightarrow> exn + ToolResultObject"

record PermissionRequestResult =
  kind :: string

record UserInputRequest =
  question :: string
  choices :: "string list option"
  allowFreeform :: "bool option"

record SessionLifecycleEvent =
  ev_type :: string
  ev_sessionId :: string

subsection \<open>Sessions\<close>

text \<open>
  \<open>CopilotSession\<close> is defined in \<open>session.cpp\<close>, which is not among the sources. The
  client only calls its methods, so a session is its identifier together with what each
  of those calls does: the tool table and the permission callback registered on it, and
  the outcomes of \<open>handleUserInputRequest\<close>, \<open>handleHooksInvoke\<close> and \<open>destroy\<close> (a value
  or a thrown exception). \<open>PermissionRequest\<close> (\<open>types.h\<close>, missing too) is the type
  parameter \<open>'p\<close>.
\<close>

record 'p CopilotSession =
  sessionId :: string
  workspacePath :: string
  toolHandlers :: "(string \<times> ToolHandler) list"
  permissionHandler :: "('p \<Rightarrow> string \<Rightarrow> exn + PermissionRequestResult) option"
  session_handleUserInputRequest :: "UserInputRequest \<Rightarrow> exn + json"
  session_handleHooksInvoke :: "string \<Rightarrow> json \<Rightarrow> exn + json"
  destroy :: "exn option"

text \<open>
  Modelled from the spec: \<open>CopilotSession::getToolHandler\<close> (\<open>session.cpp\<close> is missing):
  "look up the named tool on that session"; the result is null when the name is absent.
\<close>

definition getToolHandler :: "'p CopilotSession \<Rightarrow> string \<Rightarrow> ToolHandler option" where
  "getToolHandler session name = map_of (toolHandlers session) name"

text \<open>
  Modelled from the spec: \<open>CopilotSession::handlePermissionRequest\<close> (\<open>session.cpp\<close> is
  missing): "route to the session's permission callback; if the callback is missing
  [...], the default outcome is denied -- no approval rule and no way to ask the user".
  A callback that throws is left to the caller's catch clause.
\<close>

definition session_handlePermissionRequest ::
  "'p CopilotSession \<Rightarrow> 'p \<Rightarrow> exn + PermissionRequestResult" where
  "session_handlePermissionRequest session permReq =
     (case permissionHandler session of
        None \<Rightarrow> Inr \<lparr>kind = ''denied-no-approval-rule-and-could-not-request-from-user''\<rparr>
      | Some handler \<Rightarrow> handler permReq (sessionId session))"

section \<open>Tool execution\<close>

definition buildFailedToolResult :: "string \<Rightarrow> ToolResultObject" where
  "buildFailedToolResult err =
     \<lparr>textResultForLlm =
        ''Invoking this tool produced an error. Detailed information is not available.'',
      binaryResultsForLlm = [],
      resultType = ''failure'',
      error = Some err,
      sessionLog = None,
      toolTelemetry = JObject []\<rparr>"

definition buildUnsupportedToolResult :: "string \<Rightarrow> ToolResultObject" where
  "buildUnsupportedToolResult name =
     \<lparr>textResultForLlm =
        ''Tool '' @ [CHR 0x27] @ name @ [CHR 0x27]
        @ '' is not supported by this client instance.'',
      binaryResultsForLlm = [],
      resultType = ''failure'',
      error = Some (''tool '' @ [CHR 0x27] @ name @ [CHR 0x27] @ '' not supported''),
      sessionLog = None,
      toolTelemetry = JObject []\<rparr>"

text \<open>The try block of \<open>executeToolCall\<close> with its two catch clauses.\<close>

definition executeToolCall :: "ToolHandler \<Rightarrow> ToolInvocation \<Rightarrow> ToolResultObject" where
  "executeToolCall handler invocation =
     (case handler (arguments invocation) invocation of
        Inr r \<Rightarrow> r
      | Inl (StdException what) \<Rightarrow> buildFailedToolResult what
      | Inl NonStdException \<Rightarrow> buildFailedToolResult ''Unknown tool error'')"

section \<open>The client\<close>

subsection \<open>State\<close>

record CopilotClientOptions =
  cliPath :: string
  cliArgs :: "string list"
  cwd :: string
  port :: int
  useStdio :: bool
  cliUrl :: "string option"
  logLevel :: string
  autoStart :: bool
  githubToken :: "string option"
  useLoggedInUser :: "bool option"

text \<open>The system calls of the POSIX branch, as a trace of what the client did.\<close>

datatype signal = SIGTERM | SIGKILL

datatype wait_mode = Blocking | WNOHANG

datatype os_action =
    Exec string "string list"
  | Kill int signal
  | Waitpid int wait_mode
  | Close int

text \<open>What \<open>pipe\<close> and \<open>fork\<close> answer: a failure, or the child's pid and the parent's pipe ends.\<close>

datatype spawn_outcome =
    PipeFailed
  | ForkFailed
  | Forked int int int

text \<open>
  \<open>JsonRpcClient\<close> (\<open>json_rpc_client.cpp\<close>, missing): the descriptors it was built on, the
  methods a request handler is registered for, and whether its read loop runs.
\<close>

record JsonRpcClient =
  readFd :: int
  writeFd :: int
  requestHandlers :: "string list"
  running :: bool

record PingResponse =
  ping_message :: string
  protocolVersion :: "int option"

record LifecycleEntry =
  entry_id :: "64 word"
  eventType :: string
  fn :: "SessionLifecycleEvent \<Rightarrow> exn option"

text \<open>
  The members of \<open>CopilotClient\<close> that the operations below read or write, named as in
  the source without the trailing underscore. \<open>sessions\<close> is the session table in
  iteration order. \<open>ModelInfo\<close> (\<open>types.h\<close>, missing) is the type parameter \<open>'m\<close>. Two
  more fields record what the client did to the outside world: \<open>os_trace\<close>, the system
  calls made, and \<open>wire\<close>, the requests written to the server.
\<close>

record ('p, 'm) CopilotClient =
  options :: CopilotClientOptions
  isExternalServer :: bool
  state :: ConnectionState
  sessions :: "(string \<times> 'p CopilotSession) list"
  rpcClient :: "JsonRpcClient option"
  modelsCache :: "'m list option"
  processPid :: int
  stdinWriteFd :: int
  stdoutReadFd :: int
  lifecycleHandlers :: "LifecycleEntry list"
  nextLifecycleId :: "64 word"
  os_trace :: "os_action list"
  wire :: "(string \<times> json) list"

text \<open>
  The server: its answer to the last request of the log, given every request written so
  far. An answer is a result, or the exception \<open>request\<close> throws.
\<close>

type_synonym server = "(string \<times> json) list \<Rightarrow> exn + json"

text \<open>
  Modelled from the spec: \<open>JsonRpcClient::request\<close> (missing): "issue the corresponding
  call through the Correlation Engine"; the caller waits for the result or the error.
\<close>

definition request ::
  "server \<Rightarrow> ('p, 'm) CopilotClient \<Rightarrow> string \<Rightarrow> json
   \<Rightarrow> (exn + json) \<times> ('p, 'm) CopilotClient" where
  "request srv c method params =
     (let log = wire c @ [(method, params)] in (srv log, c\<lparr>wire := log\<rparr>))"

subsection \<open>\<open>std::to_string\<close>\<close>

function nat_to_string :: "nat \<Rightarrow> string" where
  "nat_to_string n =
     (if n < 10 then [''0123456789'' ! n]
      else nat_to_string (n div 10) @ [''0123456789'' ! (n mod 10)])"
  by pat_completeness auto
termination
  by (relation "measure (\<lambda>n. n)") auto

declare nat_to_string.simps [simp del]

definition to_string :: "int \<Rightarrow> string" where
  "to_string i = (if i < 0 then CHR ''-'' # nat_to_string (nat (- i)) else nat_to_string (nat i))"

subsection \<open>Start\<close>

text \<open>
  The argument vector \<open>startCLIServer\<close> assembles: custom arguments first, then the fixed
  flags.
\<close>

definition cli_args :: "CopilotClientOptions \<Rightarrow> string list" where
  "cli_args opts =
     cliArgs opts
     @ [''--headless'', ''--no-auto-update'', ''--log-level'', logLevel opts]
     @ (if useStdio opts then [''--stdio'']
        else if port opts > 0 then [''--port'', to_string (port opts)]
        else [])
     @ (if githubToken opts \<noteq> None
        then [''--auth-token-env'', ''COPILOT_SDK_AUTH_TOKEN'']
        else [])
     @ (let useLoggedIn =
              (case useLoggedInUser opts of Some b \<Rightarrow> b | None \<Rightarrow> githubToken opts = None)
        in if \<not> useLoggedIn then [''--no-auto-login''] else [])"

text \<open>
  The POSIX branch of \<open>startCLIServer\<close>, seen from the parent: the child runs the server,
  the parent keeps the pid and its two pipe ends. A void function returns \<open>None\<close>, or
  \<open>Some\<close> of the exception it throws.
\<close>

definition startCLIServer ::
  "spawn_outcome \<Rightarrow> ('p, 'm) CopilotClient \<Rightarrow> exn option \<times> ('p, 'm) CopilotClient" where
  "startCLIServer os c =
     (case os of
        PipeFailed \<Rightarrow> (Some (StdException ''Failed to create pipes''), c)
      | ForkFailed \<Rightarrow> (Some (StdException ''Failed to fork''), c)
      | Forked pid stdinWr stdoutRd \<Rightarrow>
          (None,
           c\<lparr>processPid := pid, stdinWriteFd := stdinWr, stdoutReadFd := stdoutRd,
             os_trace := os_trace c @ [Exec (cliPath (options c)) (cli_args (options c))]\<rparr>))"

text \<open>The six methods \<open>setupHandlers\<close> registers a request handler for.\<close>

definition setupHandlers :: "JsonRpcClient \<Rightarrow> JsonRpcClient" where
  "setupHandlers rpc =
     rpc\<lparr>requestHandlers :=
           [''session.event'', ''session.lifecycle'', ''tool.call'', ''permission.request'',
            ''userInput.request'', ''hooks.invoke'']\<rparr>"

definition connectToServer :: "('p, 'm) CopilotClient \<Rightarrow> ('p, 'm) CopilotClient" where
  "connectToServer c =
     (let rpc = \<lparr>readFd = stdoutReadFd c, writeFd = stdinWriteFd c,
                 requestHandlers = [], running = False\<rparr>
      in c\<lparr>rpcClient := Some ((setupHandlers rpc)\<lparr>running := True\<rparr>)\<rparr>)"

text \<open>
  \<open>ping\<close>: the conversion of the result to a \<open>PingResponse\<close> (\<open>types.h\<close>, missing) is the
  parameter \<open>decode\<close>.
\<close>

definition ping ::
  "server \<Rightarrow> (json \<Rightarrow> exn + PingResponse) \<Rightarrow> string \<Rightarrow> ('p, 'm) CopilotClient
   \<Rightarrow> (exn + PingResponse) \<times> ('p, 'm) CopilotClient" where
  "ping srv decode msg c =
     (if rpcClient c = None then (Inl (StdException ''Client not connected''), c)
      else (case request srv c ''ping'' (JObject [(''message'', JString msg)]) of
              (Inl e, c') \<Rightarrow> (Inl e, c')
            | (Inr result, c') \<Rightarrow> (decode result, c')))"

text \<open>
  \<open>verifyProtocolVersion\<close>. The constant \<open>SDK_PROTOCOL_VERSION\<close> (\<open>sdk_protocol_version.h\<close>,
  missing) is the parameter \<open>expected\<close>; \<open>ping()\<close> is called with its default message.
\<close>

definition verifyProtocolVersion ::
  "server \<Rightarrow> (json \<Rightarrow> exn + PingResponse) \<Rightarrow> int \<Rightarrow> ('p, 'm) CopilotClient
   \<Rightarrow> exn option \<times> ('p, 'm) CopilotClient" where
  "verifyProtocolVersion srv decode expected c =
     (case ping srv decode [] c of
        (Inl e, c') \<Rightarrow> (Some e, c')
      | (Inr response, c') \<Rightarrow>
          (case protocolVersion response of
             None \<Rightarrow>
               (Some (StdException
                  (''SDK protocol version mismatch: SDK expects version '' @ to_string expected
                   @ '', but server does not report a protocol version. ''
                   @ ''Please update your server to ensure compatibility.'')), c')
           | Some v \<Rightarrow>
               (if v \<noteq> expected then
                  (Some (StdException
                     (''SDK protocol version mismatch: SDK expects version '' @ to_string expected
                      @ '', but server reports version '' @ to_string v
                      @ ''. Please update your SDK or server to ensure compatibility.'')), c')
                else (None, c'))))"

text \<open>The try block of \<open>start\<close>.\<close>

definition start_body ::
  "spawn_outcome \<Rightarrow> server \<Rightarrow> (json \<Rightarrow> exn + PingResponse) \<Rightarrow> int \<Rightarrow> ('p, 'm) CopilotClient
   \<Rightarrow> exn option \<times> ('p, 'm) CopilotClient" where
  "start_body os srv decode expected c =
     (case (if \<not> isExternalServer c then startCLIServer os c else (None, c)) of
        (Some e, c1) \<Rightarrow> (Some e, c1)
      | (None, c1) \<Rightarrow> verifyProtocolVersion srv decode expected (connectToServer c1))"

definition start ::
  "spawn_outcome \<Rightarrow> server \<Rightarrow> (json \<Rightarrow> exn + PingResponse) \<Rightarrow> int \<Rightarrow> ('p, 'm) CopilotClient
   \<Rightarrow> exn option \<times> ('p, 'm) CopilotClient" where
  "start os srv decode expected c =
     (if state c = Connected then (None, c)
      else (case start_body os srv decode expected (c\<lparr>state := Connecting\<rparr>) of
              (None, c') \<Rightarrow> (None, c'\<lparr>state := Connected\<rparr>)
            | (Some e, c') \<Rightarrow> (Some e, c'\<lparr>state := Error\<rparr>)))"

subsection \<open>Stop\<close>

text \<open>
  The loop of \<open>stop\<close> over the collected sessions: a \<open>std::exception\<close> from \<open>destroy\<close> is
  turned into an entry of \<open>errors\<close>; the catch clause names no other type, so any other
  thrown object leaves the loop.
\<close>

fun destroy_sessions :: "'p CopilotSession list \<Rightarrow> string list \<Rightarrow> exn + string list" where
  "destroy_sessions [] errors = Inr errors"
| "destroy_sessions (session # rest) errors =
     (case destroy session of
        None \<Rightarrow> destroy_sessions rest errors
      | Some (StdException what) \<Rightarrow>
          destroy_sessions rest
            (errors @ [''Failed to destroy session '' @ sessionId session @ '': '' @ what])
      | Some NonStdException \<Rightarrow> Inl NonStdException)"

text \<open>
  Modelled from the spec: \<open>JsonRpcClient::stop\<close> (missing): "stops the Correlation
  Engine/Transport"; it makes no system call on the server process and does not throw.
  After it the client drops the object (\<open>rpcClient_.reset()\<close>).
\<close>

definition stop_rpc :: "('p, 'm) CopilotClient \<Rightarrow> ('p, 'm) CopilotClient" where
  "stop_rpc c = (case rpcClient c of None \<Rightarrow> c | Some rpc \<Rightarrow> c\<lparr>rpcClient := None\<rparr>)"

text \<open>Closing one pipe end, when it is open.\<close>

definition close_stdin :: "('p, 'm) CopilotClient \<Rightarrow> ('p, 'm) CopilotClient" where
  "close_stdin c =
     (if stdinWriteFd c \<ge> 0
      then c\<lparr>os_trace := os_trace c @ [Close (stdinWriteFd c)], stdinWriteFd := - 1\<rparr>
      else c)"

definition close_stdout :: "('p, 'm) CopilotClient \<Rightarrow> ('p, 'm) CopilotClient" where
  "close_stdout c =
     (if stdoutReadFd c \<ge> 0
      then c\<lparr>os_trace := os_trace c @ [Close (stdoutReadFd c)], stdoutReadFd := - 1\<rparr>
      else c)"

text \<open>
  The block "Kill CLI process (only if we spawned it)": \<open>stop\<close> sends SIGTERM and waits,
  \<open>forceStop\<close> sends SIGKILL and does not wait.
\<close>

definition kill_process ::
  "signal \<Rightarrow> wait_mode \<Rightarrow> ('p, 'm) CopilotClient \<Rightarrow> ('p, 'm) CopilotClient" where
  "kill_process sig mode c =
     (if \<not> isExternalServer c then
        close_stdout (close_stdin
          (if processPid c > 0
           then c\<lparr>os_trace :=
                    os_trace c @ [Kill (processPid c) sig, Waitpid (processPid c) mode],
                  processPid := - 1\<rparr>
           else c))
      else c)"

definition stop ::
  "('p, 'm) CopilotClient \<Rightarrow> (exn + string list) \<times> ('p, 'm) CopilotClient" where
  "stop c =
     (case destroy_sessions (map snd (sessions c)) [] of
        Inl e \<Rightarrow> (Inl e, c)
      | Inr errors \<Rightarrow>
          (Inr errors,
           (kill_process SIGTERM Blocking
              ((stop_rpc (c\<lparr>sessions := []\<rparr>))\<lparr>modelsCache := None\<rparr>))
           \<lparr>state := Disconnected\<rparr>))"

definition forceStop :: "('p, 'm) CopilotClient \<Rightarrow> ('p, 'm) CopilotClient" where
  "forceStop c =
     (kill_process SIGKILL WNOHANG
        ((stop_rpc (c\<lparr>sessions := []\<rparr>))\<lparr>modelsCache := None\<rparr>))
     \<lparr>state := Disconnected\<rparr>"

subsection \<open>Models\<close>

text \<open>
  \<open>listModels\<close>: the conversion of \<open>result["models"]\<close> to a vector of \<open>ModelInfo\<close> is the
  parameter \<open>decode\<close>.
\<close>

definition listModels ::
  "server \<Rightarrow> (json \<Rightarrow> exn + 'm list) \<Rightarrow> ('p, 'm) CopilotClient
   \<Rightarrow> (exn + 'm list) \<times> ('p, 'm) CopilotClient" where
  "listModels srv decode c =
     (if rpcClient c = None then (Inl (StdException ''Client not connected''), c)
      else (case modelsCache c of
              Some models \<Rightarrow> (Inr models, c)
            | None \<Rightarrow>
                (case request srv c ''models.list'' (JObject []) of
                   (Inl e, c') \<Rightarrow> (Inl e, c')
                 | (Inr result, c') \<Rightarrow>
                     (case json_find result ''models'' of
                        None \<Rightarrow> (Inr [], c'\<lparr>modelsCache := Some []\<rparr>)
                      | Some j \<Rightarrow>
                          (case decode j of
                             Inl e \<Rightarrow> (Inl e, c')
                           | Inr models \<Rightarrow> (Inr models, c'\<lparr>modelsCache := Some models\<rparr>))))))"

subsection \<open>Lifecycle subscriptions\<close>

text \<open>
  Both overloads of \<open>onLifecycle\<close>. The closure they return removes the entries with the
  allocated id; here the id is returned and \<open>unsubscribe\<close> is that closure.
\<close>

definition onLifecycle ::
  "(SessionLifecycleEvent \<Rightarrow> exn option) \<Rightarrow> ('p, 'm) CopilotClient
   \<Rightarrow> 64 word \<times> ('p, 'm) CopilotClient" where
  "onLifecycle handler c =
     (let ident = nextLifecycleId c
      in (ident,
          c\<lparr>nextLifecycleId := ident + 1,
            lifecycleHandlers :=
              lifecycleHandlers c @ [\<lparr>entry_id = ident, eventType = [], fn = handler\<rparr>]\<rparr>))"

definition onLifecycleOf ::
  "string \<Rightarrow> (SessionLifecycleEvent \<Rightarrow> exn option) \<Rightarrow> ('p, 'm) CopilotClient
   \<Rightarrow> 64 word \<times> ('p, 'm) CopilotClient" where
  "onLifecycleOf evType handler c =
     (let ident = nextLifecycleId c
      in (ident,
          c\<lparr>nextLifecycleId := ident + 1,
            lifecycleHandlers :=
              lifecycleHandlers c @ [\<lparr>entry_id = ident, eventType = evType, fn = handler\<rparr>]\<rparr>))"

definition unsubscribe :: "64 word \<Rightarrow> ('p, 'm) CopilotClient \<Rightarrow> ('p, 'm) CopilotClient" where
  "unsubscribe ident c =
     c\<lparr>lifecycleHandlers := filter (\<lambda>e. entry_id e \<noteq> ident) (lifecycleHandlers c)\<rparr>"

text \<open>
  The loop of \<open>handleSessionLifecycle\<close> over the snapshot. Its value is the list of calls
  made: the subscriber's id with what the call did. Whatever a subscriber throws is
  swallowed by \<open>catch (...) {}\<close> and the loop goes on.
\<close>

fun deliver ::
  "LifecycleEntry list \<Rightarrow> SessionLifecycleEvent \<Rightarrow> (64 word \<times> exn option) list" where
  "deliver [] event = []"
| "deliver (entry # rest) event =
     (if eventType entry = [] \<or> eventType entry = ev_type event
      then (case fn entry event of
              None \<Rightarrow> (entry_id entry, None) # deliver rest event
            | Some e \<Rightarrow> (entry_id entry, Some e) # deliver rest event)
      else deliver rest event)"

text \<open>
  \<open>handleSessionLifecycle\<close>: the exception that leaves it, if any, and the calls made. The
  conversion of the parameters to a \<open>SessionLifecycleEvent\<close> is the parameter \<open>decode\<close>.
\<close>

definition handleSessionLifecycle ::
  "(json \<Rightarrow> exn + SessionLifecycleEvent) \<Rightarrow> ('p, 'm) CopilotClient \<Rightarrow> json
   \<Rightarrow> exn option \<times> (64 word \<times> exn option) list" where
  "handleSessionLifecycle decode c params =
     (if \<not> contains params ''type'' \<or> \<not> contains params ''sessionId'' then (None, [])
      else (case decode params of
              Inl e \<Rightarrow> (Some e, [])
            | Inr event \<Rightarrow> (None, deliver (lifecycleHandlers c) event)))"

subsection \<open>Server request handlers\<close>

text \<open>
  Each handler returns the pair it answers with (\<open>Inr\<close>), or the exception that leaves it
  (\<open>Inl\<close>). The conversions of results to JSON (\<open>types.h\<close>) are parameters named \<open>encode\<close>.
\<close>

text \<open>The \<open>ToolInvocation\<close> that \<open>handleToolCall\<close> builds: the arguments default to an empty object.\<close>

definition tool_invocation :: "string \<Rightarrow> string \<Rightarrow> string \<Rightarrow> json \<Rightarrow> ToolInvocation" where
  "tool_invocation sid callId name params =
     \<lparr>inv_sessionId = sid, toolCallId = callId, toolName = name,
      arguments = (case json_find params ''arguments'' of Some a \<Rightarrow> a | None \<Rightarrow> JObject [])\<rparr>"

definition handleToolCall ::
  "(ToolResultObject \<Rightarrow> json) \<Rightarrow> ('p, 'm) CopilotClient \<Rightarrow> json \<Rightarrow> exn + rpc_result" where
  "handleToolCall encode c params =
     (case json_value params ''sessionId'' [] of Inl e \<Rightarrow> Inl e | Inr sid \<Rightarrow>
     (case json_value params ''toolCallId'' [] of Inl e \<Rightarrow> Inl e | Inr callId \<Rightarrow>
     (case json_value params ''toolName'' [] of Inl e \<Rightarrow> Inl e | Inr name \<Rightarrow>
        (if sid = [] \<or> callId = [] \<or> name = [] then
           Inr (JNull, Some \<lparr>code = - 32602, message = ''Invalid tool call payload''\<rparr>)
         else
          (case map_of (sessions c) sid of
             None \<Rightarrow> Inr (JNull, Some \<lparr>code = - 32602, message = ''Unknown session '' @ sid\<rparr>)
           | Some session \<Rightarrow>
              (case getToolHandler session name of
                 None \<Rightarrow> Inr (JObject [(''result'', encode (buildUnsupportedToolResult name))], None)
               | Some handler \<Rightarrow>
                   (let invocation = tool_invocation sid callId name params;
                        toolResult = executeToolCall handler invocation
                    in Inr (JObject [(''result'', encode toolResult)], None))))))))"

text \<open>The default outcome of the catch clause of \<open>handlePermissionRequest\<close>.\<close>

definition permission_denied :: PermissionRequestResult where
  "permission_denied = \<lparr>kind = ''denied-no-approval-rule-and-could-not-request-from-user''\<rparr>"

text \<open>
  \<open>handlePermissionRequest\<close>: decoding the request and calling the session are inside the
  try block, and \<open>catch (...)\<close> answers every exception with the default outcome. (Past the
  first check the member \<open>permissionRequest\<close> is present.)
\<close>

definition handlePermissionRequest ::
  "(json \<Rightarrow> exn + 'p) \<Rightarrow> (PermissionRequestResult \<Rightarrow> json) \<Rightarrow> ('p, 'm) CopilotClient \<Rightarrow> json
   \<Rightarrow> exn + rpc_result" where
  "handlePermissionRequest decode encode c params =
     (case json_value params ''sessionId'' [] of Inl e \<Rightarrow> Inl e | Inr sid \<Rightarrow>
        (if sid = [] \<or> \<not> contains params ''permissionRequest'' then
           Inr (JNull, Some \<lparr>code = - 32602, message = ''Invalid permission request payload''\<rparr>)
         else
          (case map_of (sessions c) sid of
             None \<Rightarrow> Inr (JNull, Some \<lparr>code = - 32602, message = ''Session not found: '' @ sid\<rparr>)
           | Some session \<Rightarrow>
              (case json_find params ''permissionRequest'' of
                 None \<Rightarrow> Inr (JNull, Some \<lparr>code = - 32602, message = ''Invalid permission request payload''\<rparr>)
               | Some j \<Rightarrow>
                   (case decode j of
                      Inl e \<Rightarrow> Inr (JObject [(''result'', encode permission_denied)], None)
                    | Inr permReq \<Rightarrow>
                        (case session_handlePermissionRequest session permReq of
                           Inl e \<Rightarrow> Inr (JObject [(''result'', encode permission_denied)], None)
                         | Inr result \<Rightarrow> Inr (JObject [(''result'', encode result)], None)))))))"

text \<open>
  The try block of \<open>handleUserInputRequest\<close>: first the request is filled in from the
  parameters, then the session is called.
\<close>

definition userInput_request :: "string \<Rightarrow> json \<Rightarrow> exn + UserInputRequest" where
  "userInput_request q params =
     (case (case json_find params ''choices'' of
              None \<Rightarrow> Inr None
            | Some j \<Rightarrow> (case get_string_vector j of Inl e \<Rightarrow> Inl e | Inr cs \<Rightarrow> Inr (Some cs))) of
        Inl e \<Rightarrow> Inl e
      | Inr cs \<Rightarrow>
          (case (case json_find params ''allowFreeform'' of
                   None \<Rightarrow> Inr None
                 | Some j \<Rightarrow> (case get_bool j of Inl e \<Rightarrow> Inl e | Inr b \<Rightarrow> Inr (Some b))) of
             Inl e \<Rightarrow> Inl e
           | Inr af \<Rightarrow> Inr \<lparr>question = q, choices = cs, allowFreeform = af\<rparr>))"

definition userInput_body ::
  "'p CopilotSession \<Rightarrow> string \<Rightarrow> json \<Rightarrow> exn + rpc_result" where
  "userInput_body session q params =
     (case userInput_request q params of
        Inl e \<Rightarrow> Inl e
      | Inr req \<Rightarrow>
          (case session_handleUserInputRequest session req of
             Inl e \<Rightarrow> Inl e
           | Inr response \<Rightarrow> Inr (response, None)))"

text \<open>
  \<open>handleUserInputRequest\<close>: its only catch clause is \<open>catch (const std::exception& e)\<close>,
  answered with the internal error -32603 and \<open>e.what()\<close>.
\<close>

definition handleUserInputRequest :: "('p, 'm) CopilotClient \<Rightarrow> json \<Rightarrow> exn + rpc_result" where
  "handleUserInputRequest c params =
     (case json_value params ''sessionId'' [] of Inl e \<Rightarrow> Inl e | Inr sid \<Rightarrow>
     (case json_value params ''question'' [] of Inl e \<Rightarrow> Inl e | Inr q \<Rightarrow>
        (if sid = [] \<or> q = [] then
           Inr (JNull, Some \<lparr>code = - 32602, message = ''Invalid user input request payload''\<rparr>)
         else
          (case map_of (sessions c) sid of
             None \<Rightarrow> Inr (JNull, Some \<lparr>code = - 32602, message = ''Session not found: '' @ sid\<rparr>)
           | Some session \<Rightarrow>
              (case userInput_body session q params of
                 Inr r \<Rightarrow> Inr r
               | Inl (StdException what) \<Rightarrow> Inr (JNull, Some \<lparr>code = - 32603, message = what\<rparr>)
               | Inl NonStdException \<Rightarrow> Inl NonStdException)))))"

text \<open>\<open>handleHooksInvoke\<close>: there is no try block around the call of the session.\<close>

definition handleHooksInvoke :: "('p, 'm) CopilotClient \<Rightarrow> json \<Rightarrow> exn + rpc_result" where
  "handleHooksInvoke c params =
     (case json_value params ''sessionId'' [] of Inl e \<Rightarrow> Inl e | Inr sid \<Rightarrow>
     (case json_value params ''hookType'' [] of Inl e \<Rightarrow> Inl e | Inr hookType \<Rightarrow>
        (if sid = [] \<or> hookType = [] then
           Inr (JNull, Some \<lparr>code = - 32602, message = ''Invalid hooks invoke payload''\<rparr>)
         else
          (case map_of (sessions c) sid of
             None \<Rightarrow> Inr (JNull, Some \<lparr>code = - 32602, message = ''Session not found: '' @ sid\<rparr>)
           | Some session \<Rightarrow>
              (let input = (case json_find params ''input'' of Some i \<Rightarrow> i | None \<Rightarrow> JObject [])
               in (case session_handleHooksInvoke session hookType input of
                     Inl e \<Rightarrow> Inl e
                   | Inr output \<Rightarrow>
                       Inr (if output \<noteq> JNull then JObject [(''output'', output)] else JNull,
                            None)))))))"

text \<open>A protocol-level error response, as opposed to a result.\<close>

definition is_protocol_error :: "rpc_result \<Rightarrow> bool" where
  "is_protocol_error r = (snd r \<noteq> None)"

section \<open>What the properties speak of\<close>

text \<open>The error detail a thrown exception leaves in a tool result: \<open>e.what()\<close>, or the fixed text.\<close>

definition failure_detail :: "exn \<Rightarrow> string" where
  "failure_detail e =
     (case e of StdException what \<Rightarrow> what | NonStdException \<Rightarrow> ''Unknown tool error'')"


text \<open>The error \<open>verifyProtocolVersion\<close> throws, recognised by the start of its text.\<close>

definition version_mismatch :: "exn \<Rightarrow> bool" where
  "version_mismatch e =
     (case e of
        StdException what \<Rightarrow> prefix ''SDK protocol version mismatch'' what
      | NonStdException \<Rightarrow> False)"

text \<open>The system calls made between an earlier state and a later one.\<close>

definition new_actions :: "('p, 'm) CopilotClient \<Rightarrow> ('p, 'm) CopilotClient \<Rightarrow> os_action list" where
  "new_actions c c' = drop (length (os_trace c)) (os_trace c')"

text \<open>The \<open>models.list\<close> requests written to the server so far.\<close>

definition models_requests :: "('p, 'm) CopilotClient \<Rightarrow> (string \<times> json) list" where
  "models_requests c = filter (\<lambda>r. fst r = ''models.list'') (wire c)"

text \<open>The client is connected and holds \<open>models\<close> in its cache.\<close>

definition cached :: "'m list \<Rightarrow> ('p, 'm) CopilotClient \<Rightarrow> bool" where
  "cached models c = (rpcClient c \<noteq> None \<and> modelsCache c = Some models)"

text \<open>
  Calls a caller can make on a client between two calls of \<open>listModels\<close>, other than \<open>stop\<close>
  and \<open>forceStop\<close>: each with the answers of the outside world that it meets. \<open>perform\<close>
  makes the call and keeps the client's new state.
\<close>

datatype 'm call =
    CallStart spawn_outcome server "json \<Rightarrow> exn + PingResponse" int
  | CallPing server "json \<Rightarrow> exn + PingResponse" string
  | CallListModels server "json \<Rightarrow> exn + 'm list"
  | CallOnLifecycle "SessionLifecycleEvent \<Rightarrow> exn option"
  | CallOnLifecycleOf string "SessionLifecycleEvent \<Rightarrow> exn option"
  | CallUnsubscribe "64 word"

fun perform :: "'m call \<Rightarrow> ('p, 'm) CopilotClient \<Rightarrow> ('p, 'm) CopilotClient" where
  "perform (CallStart os srv decode expected) c = snd (start os srv decode expected c)"
| "perform (CallPing srv decode msg) c = snd (ping srv decode msg c)"
| "perform (CallListModels srv decode) c = snd (listModels srv decode c)"
| "perform (CallOnLifecycle handler) c = snd (onLifecycle handler c)"
| "perform (CallOnLifecycleOf evType handler) c = snd (onLifecycleOf evType handler c)"
| "perform (CallUnsubscribe ident) c = unsubscribe ident c"

fun perform_all :: "'m call list \<Rightarrow> ('p, 'm) CopilotClient \<Rightarrow> ('p, 'm) CopilotClient" where
  "perform_all [] c = c"
| "perform_all (call # calls) c = perform_all calls (perform call c)"

section \<open>A concrete client\<close>

text \<open>
  The tool of the example in \<open>define_tool.h\<close>, a tool that fails, two sessions and a client
  tracking both; the conversions to JSON keep the fields the properties look at.
\<close>

definition get_weather :: ToolHandler where
  "get_weather args invocation =
     (case json_value args ''city'' ''unknown'' of
        Inl e \<Rightarrow> Inl e
      | Inr city \<Rightarrow>
          Inr \<lparr>textResultForLlm = ''Weather in '' @ city @ '': 22C sunny'',
               binaryResultsForLlm = [], resultType = ''success'', error = None,
               sessionLog = None, toolTelemetry = JObject []\<rparr>)"

definition read_file :: ToolHandler where
  "read_file args invocation = Inl (StdException ''disk unreadable'')"

definition tool_json :: "ToolResultObject \<Rightarrow> json" where
  "tool_json r =
     JObject [(''textResultForLlm'', JString (textResultForLlm r)),
              (''resultType'', JString (resultType r)),
              (''error'', (case error r of None \<Rightarrow> JNull | Some e \<Rightarrow> JString e))]"

definition permission_json :: "PermissionRequestResult \<Rightarrow> json" where
  "permission_json r = JObject [(''kind'', JString (kind r))]"

definition lifecycle_from_json :: "json \<Rightarrow> exn + SessionLifecycleEvent" where
  "lifecycle_from_json j =
     (case json_value j ''type'' [] of
        Inl e \<Rightarrow> Inl e
      | Inr t \<Rightarrow>
          (case json_value j ''sessionId'' [] of
             Inl e \<Rightarrow> Inl e
           | Inr sid \<Rightarrow> Inr \<lparr>ev_type = t, ev_sessionId = sid\<rparr>))"

definition session_one :: "json CopilotSession" where
  "session_one =
     \<lparr>sessionId = ''s1'', workspacePath = ''/work'',
      toolHandlers = [(''get_weather'', get_weather), (''read_file'', read_file)],
      permissionHandler = None,
      session_handleUserInputRequest = (\<lambda>req. Inl (StdException ''prompt closed'')),
      session_handleHooksInvoke = (\<lambda>hookType input. Inl (StdException ''hook failed'')),
      destroy = None\<rparr>"

definition session_two :: "json CopilotSession" where
  "session_two =
     \<lparr>sessionId = ''s2'', workspacePath = ''/work'',
      toolHandlers = [],
      permissionHandler = Some (\<lambda>req sid. Inl NonStdException),
      session_handleUserInputRequest = (\<lambda>req. Inl NonStdException),
      session_handleHooksInvoke = (\<lambda>hookType input. Inr JNull),
      destroy = Some (StdException ''connection closed'')\<rparr>"

definition subscribers :: "LifecycleEntry list" where
  "subscribers =
     [\<lparr>entry_id = 0, eventType = [], fn = (\<lambda>ev. Some NonStdException)\<rparr>,
      \<lparr>entry_id = 1, eventType = ''session.deleted'', fn = (\<lambda>ev. None)\<rparr>,
      \<lparr>entry_id = 2, eventType = ''session.created'', fn = (\<lambda>ev. None)\<rparr>]"

definition client_one :: "(json, string) CopilotClient" where
  "client_one =
     \<lparr>options = \<lparr>cliPath = ''copilot'', cliArgs = [], cwd = [], port = 0, useStdio = True,
                  cliUrl = None, logLevel = ''info'', autoStart = True, githubToken = None,
                  useLoggedInUser = None\<rparr>,
      isExternalServer = False,
      state = Connected,
      sessions = [(''s1'', session_one), (''s2'', session_two)],
      rpcClient = Some \<lparr>readFd = 4, writeFd = 3, requestHandlers = [], running = True\<rparr>,
      modelsCache = None,
      processPid = 4242, stdinWriteFd = 3, stdoutReadFd = 4,
      lifecycleHandlers = subscribers,
      nextLifecycleId = 3,
      os_trace = [],
      wire = []\<rparr>"

text \<open>
  The same client before \<open>start\<close>, the same client attached to an external endpoint, and
  two servers that differ in the models they list.
\<close>

definition client_zero :: "(json, string) CopilotClient" where
  "client_zero =
     client_one\<lparr>state := Disconnected, sessions := [], rpcClient := None,
                processPid := - 1, stdinWriteFd := - 1, stdoutReadFd := - 1\<rparr>"

definition external_client :: "(json, string) CopilotClient" where
  "external_client = client_one\<lparr>isExternalServer := True\<rparr>"

definition ping_from_json :: "json \<Rightarrow> exn + PingResponse" where
  "ping_from_json j =
     (case json_value j ''message'' [] of
        Inl e \<Rightarrow> Inl e
      | Inr m \<Rightarrow>
          Inr \<lparr>ping_message = m,
               protocolVersion =
                 (case json_find j ''protocolVersion'' of Some (JNumber v) \<Rightarrow> Some v | _ \<Rightarrow> None)\<rparr>)"

definition models_from_json :: "json \<Rightarrow> exn + string list" where
  "models_from_json j = get_string_vector j"

definition answer :: "string \<Rightarrow> (string \<times> json) list \<Rightarrow> exn + json" where
  "answer model log =
     (case rev log of
        [] \<Rightarrow> Inl (StdException ''no request'')
      | (method, params) # earlier \<Rightarrow>
          if method = ''ping''
          then Inr (JObject [(''message'', JString ''pong''), (''protocolVersion'', JNumber 2)])
          else if method = ''models.list''
          then Inr (JObject [(''models'', JArray [JString model])])
          else Inl (StdException ''Method not found''))"

section \<open>Properties\<close>

subsection \<open>Tool calls\<close>

lemma unsupported_error_text:
  "\<exists>txt. error (buildUnsupportedToolResult name) = Some txt \<and> sublist name txt"
proof -
  have "sublist name ((''tool '' @ [CHR 0x27]) @ name @ ([CHR 0x27] @ '' not supported''))"
    by (rule sublist_appendI)
  then show ?thesis
    by (simp add: buildUnsupportedToolResult_def)
qed

text \<open>
  C4. A \<open>tool.call\<close> with the three identifiers present, whose session is tracked and whose
  tool name has no handler on that session, is answered with a result and no protocol
  error: the structured failure \<open>buildUnsupportedToolResult\<close>, whose error text contains
  the tool name.
\<close>

theorem unsupported_tool_structured_failure:
  assumes "json_value params ''sessionId'' [] = Inr sid"
    and "json_value params ''toolCallId'' [] = Inr callId"
    and "json_value params ''toolName'' [] = Inr name"
    and "sid \<noteq> []" and "callId \<noteq> []" and "name \<noteq> []"
    and "map_of (sessions c) sid = Some session"
    and "getToolHandler session name = None"
  shows "handleToolCall encode c params
           = Inr (JObject [(''result'', encode (buildUnsupportedToolResult name))], None)
         \<and> \<not> is_protocol_error
               (JObject [(''result'', encode (buildUnsupportedToolResult name))], None)
         \<and> resultType (buildUnsupportedToolResult name) = ''failure''
         \<and> (\<exists>txt. error (buildUnsupportedToolResult name) = Some txt \<and> sublist name txt)"
proof -
  have "handleToolCall encode c params
           = Inr (JObject [(''result'', encode (buildUnsupportedToolResult name))], None)"
    using assms by (simp add: handleToolCall_def)
  moreover have "resultType (buildUnsupportedToolResult name) = ''failure''"
    by (simp add: buildUnsupportedToolResult_def)
  ultimately show ?thesis
    using unsupported_error_text[of name] by (simp add: is_protocol_error_def)
qed

theorem unsupported_tool_witness:
  "handleToolCall tool_json client_one
     (JObject [(''sessionId'', JString ''s1''), (''toolCallId'', JString ''call-7''),
               (''toolName'', JString ''get_rocket'')])
   = Inr (JObject [(''result'', tool_json (buildUnsupportedToolResult ''get_rocket''))], None)
   \<and> error (buildUnsupportedToolResult ''get_rocket'')
       = Some (''tool '' @ [CHR 0x27] @ ''get_rocket'' @ [CHR 0x27] @ '' not supported'')"
  using unsupported_tool_structured_failure
    [of "JObject [(''sessionId'', JString ''s1''), (''toolCallId'', JString ''call-7''),
                  (''toolName'', JString ''get_rocket'')]"
        "''s1''" "''call-7''" "''get_rocket''" client_one session_one tool_json]
  by (simp add: client_one_def session_one_def getToolHandler_def buildUnsupportedToolResult_def)

lemma executeToolCall_raise:
  "handler (arguments invocation) invocation = Inl e \<Longrightarrow>
     executeToolCall handler invocation = buildFailedToolResult (failure_detail e)"
  by (cases e) (simp_all add: executeToolCall_def failure_detail_def)

text \<open>
  C5. A \<open>tool.call\<close> that reaches a registered handler which throws, whatever it throws, is
  answered with a result and no protocol error: a tool result of type "failure" whose
  error field carries the detail (the exception's text, or "Unknown tool error").
\<close>

theorem tool_handler_exception_structured_failure:
  assumes "json_value params ''sessionId'' [] = Inr sid"
    and "json_value params ''toolCallId'' [] = Inr callId"
    and "json_value params ''toolName'' [] = Inr name"
    and "sid \<noteq> []" and "callId \<noteq> []" and "name \<noteq> []"
    and "map_of (sessions c) sid = Some session"
    and "getToolHandler session name = Some handler"
    and "handler (arguments (tool_invocation sid callId name params))
                 (tool_invocation sid callId name params) = Inl e"
  shows "handleToolCall encode c params
           = Inr (JObject [(''result'', encode (buildFailedToolResult (failure_detail e)))], None)
         \<and> \<not> is_protocol_error
               (JObject [(''result'', encode (buildFailedToolResult (failure_detail e)))], None)
         \<and> resultType (buildFailedToolResult (failure_detail e)) = ''failure''
         \<and> error (buildFailedToolResult (failure_detail e)) = Some (failure_detail e)"
proof -
  have "executeToolCall handler (tool_invocation sid callId name params)
          = buildFailedToolResult (failure_detail e)"
    using assms(9) by (rule executeToolCall_raise)
  then have "handleToolCall encode c params
           = Inr (JObject [(''result'', encode (buildFailedToolResult (failure_detail e)))], None)"
    using assms(1-8) by (simp add: handleToolCall_def)
  then show ?thesis
    by (simp add: is_protocol_error_def buildFailedToolResult_def)
qed

theorem tool_handler_exception_witness:
  "handleToolCall tool_json client_one
     (JObject [(''sessionId'', JString ''s1''), (''toolCallId'', JString ''call-8''),
               (''toolName'', JString ''read_file'')])
   = Inr (JObject [(''result'', tool_json (buildFailedToolResult ''disk unreadable''))], None)"
  using tool_handler_exception_structured_failure
    [of "JObject [(''sessionId'', JString ''s1''), (''toolCallId'', JString ''call-8''),
                  (''toolName'', JString ''read_file'')]"
        "''s1''" "''call-8''" "''read_file''" client_one session_one read_file
        "StdException ''disk unreadable''" tool_json]
  by (simp add: client_one_def session_one_def getToolHandler_def read_file_def
        failure_detail_def)

subsection \<open>Permission requests\<close>

text \<open>
  C6. A \<open>permission.request\<close> routed to a tracked session whose permission callback is
  missing, or throws (anything) on the decoded request, is answered with a result and no
  protocol error, and the result is the default outcome
  "denied-no-approval-rule-and-could-not-request-from-user". No exception leaves the
  handler (the value is \<open>Inr\<close>).
\<close>

theorem permission_request_default_denied:
  assumes "json_value params ''sessionId'' [] = Inr sid" and "sid \<noteq> []"
    and "json_find params ''permissionRequest'' = Some j"
    and "map_of (sessions c) sid = Some session"
    and "permissionHandler session = None
         \<or> (\<exists>h. permissionHandler session = Some h
                \<and> (\<forall>permReq. decode j = Inr permReq \<longrightarrow> isl (h permReq (sessionId session))))"
  shows "handlePermissionRequest decode encode c params
           = Inr (JObject [(''result'', encode permission_denied)], None)
         \<and> \<not> is_protocol_error (JObject [(''result'', encode permission_denied)], None)
         \<and> kind permission_denied = ''denied-no-approval-rule-and-could-not-request-from-user''"
proof -
  have call: "\<And>permReq. decode j = Inr permReq \<Longrightarrow>
      (case session_handlePermissionRequest session permReq of
         Inl e \<Rightarrow> Inr (JObject [(''result'', encode permission_denied)], None)
       | Inr result \<Rightarrow> Inr (JObject [(''result'', encode result)], None))
      = (Inr (JObject [(''result'', encode permission_denied)], None) :: exn + rpc_result)"
    using assms(5)
    by (auto simp: session_handlePermissionRequest_def permission_denied_def isl_def
             split: sum.splits)
  have "handlePermissionRequest decode encode c params
           = Inr (JObject [(''result'', encode permission_denied)], None)"
    using assms(1-4) call
    by (simp add: handlePermissionRequest_def contains_def split: sum.splits)
  then show ?thesis
    by (simp add: is_protocol_error_def permission_denied_def)
qed

theorem permission_request_witness:
  "handlePermissionRequest Inr permission_json client_one
     (JObject [(''sessionId'', JString ''s1''),
               (''permissionRequest'', JObject [(''kind'', JString ''shell'')])])
   = Inr (JObject [(''result'', permission_json permission_denied)], None)
   \<and> handlePermissionRequest Inr permission_json client_one
     (JObject [(''sessionId'', JString ''s2''),
               (''permissionRequest'', JObject [(''kind'', JString ''write'')])])
   = Inr (JObject [(''result'', permission_json permission_denied)], None)"
  using permission_request_default_denied
    [of "JObject [(''sessionId'', JString ''s1''),
                  (''permissionRequest'', JObject [(''kind'', JString ''shell'')])]"
        "''s1''" "JObject [(''kind'', JString ''shell'')]" client_one session_one Inr
        permission_json]
    permission_request_default_denied
    [of "JObject [(''sessionId'', JString ''s2''),
                  (''permissionRequest'', JObject [(''kind'', JString ''write'')])]"
        "''s2''" "JObject [(''kind'', JString ''write'')]" client_one session_two Inr
        permission_json]
  by (simp add: client_one_def session_one_def session_two_def)

subsection \<open>User input requests\<close>

text \<open>
  The catch clause of \<open>handleUserInputRequest\<close>: when the input callback fails with an
  exception derived from \<open>std::exception\<close>, with text \<open>what\<close>, the request is answered
  with the protocol-level internal error, code -32603 and that text, and a null result.
\<close>

lemma user_input_failure_internal_error:
  assumes "json_value params ''sessionId'' [] = Inr sid"
    and "json_value params ''question'' [] = Inr q"
    and "sid \<noteq> []" and "q \<noteq> []"
    and "map_of (sessions c) sid = Some session"
    and "userInput_request q params = Inr req"
    and "session_handleUserInputRequest session req = Inl (StdException what)"
  shows "handleUserInputRequest c params = Inr (JNull, Some \<lparr>code = - 32603, message = what\<rparr>)
         \<and> is_protocol_error (JNull, Some \<lparr>code = - 32603, message = what\<rparr>)"
  using assms
  by (simp add: handleUserInputRequest_def userInput_body_def is_protocol_error_def)

lemma user_input_failure_example:
  "handleUserInputRequest client_one
     (JObject [(''sessionId'', JString ''s1''), (''question'', JString ''Proceed?''),
               (''choices'', JArray [JString ''yes'', JString ''no''])])
   = Inr (JNull, Some \<lparr>code = - 32603, message = ''prompt closed''\<rparr>)"
  using user_input_failure_internal_error
    [of "JObject [(''sessionId'', JString ''s1''), (''question'', JString ''Proceed?''),
                  (''choices'', JArray [JString ''yes'', JString ''no''])]"
        "''s1''" "''Proceed?''" client_one session_one
        "\<lparr>question = ''Proceed?'', choices = Some [''yes'', ''no''], allowFreeform = None\<rparr>"
        "''prompt closed''"]
  by (simp add: client_one_def session_one_def userInput_request_def)

text \<open>
  C7. Not every failure of the input callback is surfaced as an internal error response:
  the only catch clause is \<open>catch (const std::exception& e)\<close>, where \<open>executeToolCall\<close>
  adds \<open>catch (...)\<close>. A \<open>userInput.request\<close> for session s2 of \<open>client_one\<close>, whose input
  callback throws an object of another type, gets no response from the handler: the
  object leaves it.
\<close>

theorem user_input_other_exception_escapes:
  "handleUserInputRequest client_one
     (JObject [(''sessionId'', JString ''s2''), (''question'', JString ''Which branch?''),
               (''allowFreeform'', JBool True)])
   = Inl NonStdException"
  by (simp add: handleUserInputRequest_def userInput_body_def userInput_request_def
        client_one_def session_two_def)

subsection \<open>Lifecycle events\<close>

lemma deliver_calls:
  "deliver entries event =
     map (\<lambda>e. (entry_id e, fn e event))
       (filter (\<lambda>e. eventType e = [] \<or> eventType e = ev_type event) entries)"
  by (induction entries) (auto split: option.splits)

text \<open>
  C8. For a \<open>session.lifecycle\<close> notification that carries a type and a session id and
  decodes to an event, the calls made are exactly: every registered subscriber whose
  filter is empty or equals the event's type, in registration order, each called once
  with the event. What a subscriber does (return, or throw anything) has no influence on
  which subscribers are called, and no exception leaves the handler.
\<close>

theorem lifecycle_delivery_to_all_matching:
  assumes "contains params ''type''" and "contains params ''sessionId''"
    and "decode params = Inr event"
  shows "handleSessionLifecycle decode c params =
           (None, map (\<lambda>e. (entry_id e, fn e event))
                    (filter (\<lambda>e. eventType e = [] \<or> eventType e = ev_type event)
                       (lifecycleHandlers c)))"
  using assms by (simp add: handleSessionLifecycle_def deliver_calls)

theorem lifecycle_delivery_witness:
  "handleSessionLifecycle lifecycle_from_json client_one
     (JObject [(''type'', JString ''session.created''), (''sessionId'', JString ''s9'')])
   = (None, [(0, Some NonStdException), (2, None)])"
  using lifecycle_delivery_to_all_matching
    [of "JObject [(''type'', JString ''session.created''), (''sessionId'', JString ''s9'')]"
        lifecycle_from_json
        "\<lparr>ev_type = ''session.created'', ev_sessionId = ''s9''\<rparr>" client_one]
  by (simp add: contains_def lifecycle_from_json_def client_one_def subscribers_def)

subsection \<open>Stop\<close>



lemma sessions_kill_process [simp]: "sessions (kill_process sig mode c) = sessions c"
  by (simp add: kill_process_def close_stdin_def close_stdout_def)

lemma sessions_stop_rpc [simp]: "sessions (stop_rpc c) = sessions c"
  by (simp add: stop_rpc_def split: option.splits)



subsection \<open>Exceptions at the request handlers\<close>

lemma hooks_exception_escapes:
  assumes "json_value params ''sessionId'' [] = Inr sid"
    and "json_value params ''hookType'' [] = Inr hookType"
    and "sid \<noteq> []" and "hookType \<noteq> []"
    and "map_of (sessions c) sid = Some session"
    and "session_handleHooksInvoke session hookType
           (case json_find params ''input'' of Some i \<Rightarrow> i | None \<Rightarrow> JObject []) = Inl e"
  shows "handleHooksInvoke c params = Inl e"
  using assms by (simp add: handleHooksInvoke_def)

lemma user_input_non_std_escapes:
  assumes "json_value params ''sessionId'' [] = Inr sid"
    and "json_value params ''question'' [] = Inr q"
    and "sid \<noteq> []" and "q \<noteq> []"
    and "map_of (sessions c) sid = Some session"
    and "userInput_request q params = Inr req"
    and "session_handleUserInputRequest session req = Inl NonStdException"
  shows "handleUserInputRequest c params = Inl NonStdException"
  using assms by (simp add: handleUserInputRequest_def userInput_body_def)

text \<open>
  C1. The claim that no exception raised in a registered handler leaves a request
  handler does not hold of \<open>handleHooksInvoke\<close> and \<open>handleUserInputRequest\<close>. For the
  client \<open>client_one\<close>: a \<open>hooks.invoke\<close> for session s1, whose hooks callback throws a
  \<open>std::runtime_error\<close>, ends with that exception leaving \<open>handleHooksInvoke\<close>; a
  \<open>userInput.request\<close> for session s2, whose input callback throws an object that is not
  a \<open>std::exception\<close>, ends with that object leaving \<open>handleUserInputRequest\<close>.
\<close>

theorem handler_exception_escapes:
  "handleHooksInvoke client_one
     (JObject [(''sessionId'', JString ''s1''), (''hookType'', JString ''preToolUse'')])
   = Inl (StdException ''hook failed'')
   \<and> handleUserInputRequest client_one
     (JObject [(''sessionId'', JString ''s2''), (''question'', JString ''Proceed?'')])
   = Inl NonStdException"
  by (simp add: handleHooksInvoke_def handleUserInputRequest_def userInput_body_def
        userInput_request_def client_one_def session_one_def session_two_def)

subsection \<open>Start\<close>

lemma start_connected: "state c = Connected \<Longrightarrow> start os srv decode expected c = (None, c)"
  by (simp add: start_def)

lemma start_final_state:
  "state c \<noteq> Connected \<Longrightarrow>
     state (snd (start os srv decode expected c))
       = (if fst (start os srv decode expected c) = None then Connected else Error)"
  by (simp add: start_def split: prod.splits option.splits)

lemma start_success_state:
  "fst (start os srv decode expected c) = None \<Longrightarrow>
     state (snd (start os srv decode expected c)) = Connected"
  by (cases "state c = Connected") (simp_all add: start_connected start_final_state)

lemma startCLIServer_keeps:
  "modelsCache (snd (startCLIServer os c)) = modelsCache c
   \<and> wire (snd (startCLIServer os c)) = wire c
   \<and> rpcClient (snd (startCLIServer os c)) = rpcClient c"
  by (simp add: startCLIServer_def split: spawn_outcome.splits)

lemma connectToServer_keeps:
  "modelsCache (connectToServer c) = modelsCache c \<and> wire (connectToServer c) = wire c
   \<and> rpcClient (connectToServer c) \<noteq> None"
  by (simp add: connectToServer_def Let_def)

lemma verify_outcome:
  assumes "rpcClient c \<noteq> None"
    and "srv (wire c @ [(''ping'', JObject [(''message'', JString [])])]) = Inr j"
    and "decode j = Inr response"
  shows "fst (verifyProtocolVersion srv decode expected c)
           = (case protocolVersion response of
                None \<Rightarrow> Some (StdException
                  (''SDK protocol version mismatch: SDK expects version '' @ to_string expected
                   @ '', but server does not report a protocol version. ''
                   @ ''Please update your server to ensure compatibility.''))
              | Some v \<Rightarrow>
                  if v \<noteq> expected then Some (StdException
                    (''SDK protocol version mismatch: SDK expects version '' @ to_string expected
                     @ '', but server reports version '' @ to_string v
                     @ ''. Please update your SDK or server to ensure compatibility.''))
                  else None)"
  using assms
  by (simp add: verifyProtocolVersion_def ping_def request_def Let_def split: option.splits)

lemma verify_mismatch:
  assumes "rpcClient c \<noteq> None"
    and "srv (wire c @ [(''ping'', JObject [(''message'', JString [])])]) = Inr j"
    and "decode j = Inr response"
    and "protocolVersion response \<noteq> Some expected"
  shows "\<exists>e. fst (verifyProtocolVersion srv decode expected c) = Some e \<and> version_mismatch e"
proof (cases "protocolVersion response")
  case None
  have "prefix ''SDK protocol version mismatch''
          (''SDK protocol version mismatch'' @ ('': SDK expects version '' @ to_string expected
                   @ '', but server does not report a protocol version. ''
                   @ ''Please update your server to ensure compatibility.''))"
    by (rule prefixI) simp
  then show ?thesis
    using verify_outcome[where srv=srv and decode=decode and c=c and j=j
        and response=response and expected=expected] assms(1-3) None
    by (simp add: version_mismatch_def)
next
  case (Some v)
  have "prefix ''SDK protocol version mismatch''
          (''SDK protocol version mismatch'' @ ('': SDK expects version '' @ to_string expected
                     @ '', but server reports version '' @ to_string v
                     @ ''. Please update your SDK or server to ensure compatibility.''))"
    by (rule prefixI) simp
  then show ?thesis
    using verify_outcome[where srv=srv and decode=decode and c=c and j=j
        and response=response and expected=expected] assms Some
    by (simp add: version_mismatch_def)
qed

lemma start_body_handshake:
  assumes "isExternalServer c \<or> (\<exists>pid inFd outFd. os = Forked pid inFd outFd)"
  shows "fst (start_body os srv decode expected c)
           = fst (verifyProtocolVersion srv decode expected
                    (connectToServer
                       (snd (if \<not> isExternalServer c then startCLIServer os c else (None, c)))))"
  using assms by (auto simp: start_body_def startCLIServer_def)

text \<open>
  C2. \<open>start\<close> on a \<open>Connected\<close> client returns at once and changes nothing. Otherwise it
  runs its try block from the state \<open>Connecting\<close>; a normal return ends in \<open>Connected\<close> and
  an exception ends in \<open>Error\<close>. When the server is external or was spawned, and the
  handshake's \<open>ping\<close> is answered with a response: if the response carries the expected
  protocol version \<open>start\<close> returns normally in state \<open>Connected\<close>; if it carries none or
  another one, \<open>start\<close> throws the protocol version mismatch error and the state is
  \<open>Error\<close>.
\<close>

theorem start_handshake:
  "(state c = Connected \<longrightarrow> start os srv decode expected c = (None, c))
   \<and> (state c \<noteq> Connected \<longrightarrow>
        start os srv decode expected c
          = (case start_body os srv decode expected (c\<lparr>state := Connecting\<rparr>) of
               (None, c') \<Rightarrow> (None, c'\<lparr>state := Connected\<rparr>)
             | (Some e, c') \<Rightarrow> (Some e, c'\<lparr>state := Error\<rparr>)))
   \<and> (fst (start os srv decode expected c) = None \<longrightarrow>
        state (snd (start os srv decode expected c)) = Connected)
   \<and> (state c \<noteq> Connected \<and> fst (start os srv decode expected c) \<noteq> None \<longrightarrow>
        state (snd (start os srv decode expected c)) = Error)
   \<and> (state c \<noteq> Connected
        \<and> (isExternalServer c \<or> (\<exists>pid inFd outFd. os = Forked pid inFd outFd))
        \<and> srv (wire c @ [(''ping'', JObject [(''message'', JString [])])]) = Inr j
        \<and> decode j = Inr response \<longrightarrow>
        (if protocolVersion response = Some expected
         then fst (start os srv decode expected c) = None
              \<and> state (snd (start os srv decode expected c)) = Connected
         else (\<exists>e. fst (start os srv decode expected c) = Some e \<and> version_mismatch e)
              \<and> state (snd (start os srv decode expected c)) = Error))"
proof (intro conjI impI)
  assume "state c = Connected"
  then show "start os srv decode expected c = (None, c)" by (rule start_connected)
next
  assume "state c \<noteq> Connected"
  then show "start os srv decode expected c
          = (case start_body os srv decode expected (c\<lparr>state := Connecting\<rparr>) of
               (None, c') \<Rightarrow> (None, c'\<lparr>state := Connected\<rparr>)
             | (Some e, c') \<Rightarrow> (Some e, c'\<lparr>state := Error\<rparr>))"
    by (simp add: start_def)
next
  assume "fst (start os srv decode expected c) = None"
  then show "state (snd (start os srv decode expected c)) = Connected"
    by (rule start_success_state)
next
  assume "state c \<noteq> Connected \<and> fst (start os srv decode expected c) \<noteq> None"
  then show "state (snd (start os srv decode expected c)) = Error"
    by (simp add: start_final_state)
next
  assume h: "state c \<noteq> Connected
        \<and> (isExternalServer c \<or> (\<exists>pid inFd outFd. os = Forked pid inFd outFd))
        \<and> srv (wire c @ [(''ping'', JObject [(''message'', JString [])])]) = Inr j
        \<and> decode j = Inr response"
  let ?c0 = "c\<lparr>state := Connecting\<rparr>"
  let ?c1 = "connectToServer
               (snd (if \<not> isExternalServer ?c0 then startCLIServer os ?c0 else (None, ?c0)))"
  have ext: "isExternalServer ?c0 \<or> (\<exists>pid inFd outFd. os = Forked pid inFd outFd)"
    using h by simp
  have rpc: "rpcClient ?c1 \<noteq> None" by (simp add: connectToServer_def Let_def)
  have w: "wire ?c1 = wire c"
    by (simp add: connectToServer_def Let_def startCLIServer_keeps)
  have srv: "srv (wire ?c1 @ [(''ping'', JObject [(''message'', JString [])])]) = Inr j"
    using h w by simp
  have dec: "decode j = Inr response" using h by simp
  have body: "fst (start_body os srv decode expected ?c0)
                = fst (verifyProtocolVersion srv decode expected ?c1)"
    by (rule start_body_handshake[OF ext])
  have fst_start:
    "fst (start os srv decode expected c) = fst (start_body os srv decode expected ?c0)"
    using h by (simp add: start_def split: prod.splits option.splits)
  show "if protocolVersion response = Some expected
         then fst (start os srv decode expected c) = None
              \<and> state (snd (start os srv decode expected c)) = Connected
         else (\<exists>e. fst (start os srv decode expected c) = Some e \<and> version_mismatch e)
              \<and> state (snd (start os srv decode expected c)) = Error"
  proof (cases "protocolVersion response = Some expected")
    case True
    have "fst (start os srv decode expected c) = None"
      using verify_outcome[where srv=srv and decode=decode and c="?c1" and j=j
          and response=response and expected=expected] rpc srv dec True body fst_start
      by simp
    then show ?thesis using True start_success_state by simp
  next
    case False
    obtain e where e: "fst (verifyProtocolVersion srv decode expected ?c1) = Some e"
      "version_mismatch e"
      using verify_mismatch[where srv=srv and decode=decode and c="?c1" and j=j
          and response=response and expected=expected] rpc srv dec False
      by blast
    then have "fst (start os srv decode expected c) = Some e"
      using body fst_start by simp
    then show ?thesis
      using False e(2) h start_final_state[of c os srv decode expected] by simp
  qed
qed

theorem start_handshake_witness:
  "start (Forked 4242 3 4) (answer ''model-a'') ping_from_json 2 client_one = (None, client_one)
   \<and> fst (start (Forked 4242 3 4) (answer ''model-a'') ping_from_json 2 client_zero) = None
   \<and> state (snd (start (Forked 4242 3 4) (answer ''model-a'') ping_from_json 2 client_zero))
       = Connected
   \<and> (\<exists>e. fst (start (Forked 4242 3 4) (answer ''model-a'') ping_from_json 3 client_zero) = Some e
          \<and> version_mismatch e)
   \<and> state (snd (start (Forked 4242 3 4) (answer ''model-a'') ping_from_json 3 client_zero))
       = Error"
proof -
  let ?pong = "JObject [(''message'', JString ''pong''), (''protocolVersion'', JNumber 2)]"
  let ?response = "\<lparr>ping_message = ''pong'', protocolVersion = Some 2\<rparr>"
  have connected: "state client_one = Connected"
    by (simp add: client_one_def)
  have fresh: "state client_zero \<noteq> Connected"
    by (simp add: client_zero_def)
  have spawned: "\<exists>pid inFd outFd. Forked 4242 3 4 = Forked pid inFd outFd"
    by simp
  have answered:
    "answer ''model-a'' (wire client_zero @ [(''ping'', JObject [(''message'', JString [])])])
       = Inr ?pong"
    by (simp add: client_zero_def client_one_def answer_def)
  have decoded: "ping_from_json ?pong = Inr ?response"
    by (simp add: ping_from_json_def)
  have noop: "start (Forked 4242 3 4) (answer ''model-a'') ping_from_json 2 client_one
                = (None, client_one)"
    using connected
      start_handshake
        [where c = client_one and os = "Forked 4242 3 4" and srv = "answer ''model-a''"
           and decode = ping_from_json and expected = 2 and j = ?pong and response = ?response,
         THEN conjunct1]
    by simp
  have same: "fst (start (Forked 4242 3 4) (answer ''model-a'') ping_from_json 2 client_zero) = None
      \<and> state (snd (start (Forked 4242 3 4) (answer ''model-a'') ping_from_json 2 client_zero))
          = Connected"
    using fresh spawned answered decoded
      start_handshake
        [where c = client_zero and os = "Forked 4242 3 4" and srv = "answer ''model-a''"
           and decode = ping_from_json and expected = 2 and j = ?pong and response = ?response,
         THEN conjunct2, THEN conjunct2, THEN conjunct2, THEN conjunct2]
    by simp
  have other: "(\<exists>e. fst (start (Forked 4242 3 4) (answer ''model-a'') ping_from_json 3 client_zero)
                      = Some e \<and> version_mismatch e)
      \<and> state (snd (start (Forked 4242 3 4) (answer ''model-a'') ping_from_json 3 client_zero))
          = Error"
    using fresh spawned answered decoded
      start_handshake
        [where c = client_zero and os = "Forked 4242 3 4" and srv = "answer ''model-a''"
           and decode = ping_from_json and expected = 3 and j = ?pong and response = ?response,
         THEN conjunct2, THEN conjunct2, THEN conjunct2, THEN conjunct2]
    by simp
  show ?thesis
    using noop same other by simp
qed

subsection \<open>Process termination\<close>

lemma os_trace_stop_rpc [simp]: "os_trace (stop_rpc c) = os_trace c"
  by (simp add: stop_rpc_def split: option.splits)

lemma isExternalServer_stop_rpc [simp]: "isExternalServer (stop_rpc c) = isExternalServer c"
  by (simp add: stop_rpc_def split: option.splits)

lemma processPid_stop_rpc [simp]: "processPid (stop_rpc c) = processPid c"
  by (simp add: stop_rpc_def split: option.splits)

lemma kill_process_external: "isExternalServer c \<Longrightarrow> kill_process sig mode c = c"
  by (simp add: kill_process_def)

lemma kill_process_actions:
  "Kill pid s \<in> set (drop (length (os_trace c)) (os_trace (kill_process sig mode c)))
     \<Longrightarrow> \<not> isExternalServer c \<and> pid = processPid c \<and> 0 < pid"
  by (auto simp: kill_process_def close_stdin_def close_stdout_def split: if_splits)

text \<open>
  C9. On a client attached to an external server, \<open>stop\<close> and \<open>forceStop\<close> make no system
  call at all: no signal, no wait, no close. And whenever one of them sends a signal, the
  client is not attached to an external server and the signal goes to the pid of the
  process it holds.
\<close>

theorem external_endpoint_never_terminated:
  "(isExternalServer c \<longrightarrow>
      os_trace (snd (stop c)) = os_trace c \<and> os_trace (forceStop c) = os_trace c)
   \<and> (Kill pid s \<in> set (new_actions c (snd (stop c)))
        \<or> Kill pid s \<in> set (new_actions c (forceStop c))
      \<longrightarrow> \<not> isExternalServer c \<and> pid = processPid c \<and> 0 < pid)"
proof -
  have quiet: "os_trace (snd (stop c)) = os_trace c \<and> os_trace (forceStop c) = os_trace c"
    if "isExternalServer c"
    using that
    by (simp add: stop_def forceStop_def kill_process_external split: sum.splits)
  have from_stop: "\<not> isExternalServer c \<and> pid = processPid c \<and> 0 < pid"
    if k: "Kill pid s \<in> set (new_actions c (snd (stop c)))"
  proof (cases "destroy_sessions (map snd (sessions c)) []")
    case (Inl e)
    then show ?thesis using k by (simp add: stop_def new_actions_def)
  next
    case (Inr errs)
    then show ?thesis
      using k kill_process_actions
        [of pid s "(stop_rpc (c\<lparr>sessions := []\<rparr>))\<lparr>modelsCache := None\<rparr>" SIGTERM Blocking]
      by (simp add: stop_def new_actions_def)
  qed
  have from_forceStop: "\<not> isExternalServer c \<and> pid = processPid c \<and> 0 < pid"
    if "Kill pid s \<in> set (new_actions c (forceStop c))"
    using that kill_process_actions
      [of pid s "(stop_rpc (c\<lparr>sessions := []\<rparr>))\<lparr>modelsCache := None\<rparr>" SIGKILL WNOHANG]
    by (simp add: forceStop_def new_actions_def)
  show ?thesis
    using quiet from_stop from_forceStop by blast
qed

theorem external_endpoint_witness:
  "os_trace (snd (stop external_client)) = os_trace external_client
   \<and> os_trace (forceStop external_client) = os_trace external_client
   \<and> Kill 4242 SIGKILL \<in> set (new_actions client_one (forceStop client_one))
   \<and> \<not> isExternalServer client_one \<and> processPid client_one = 4242"
proof -
  have external: "isExternalServer external_client"
    by (simp add: external_client_def)
  have killed: "Kill 4242 SIGKILL \<in> set (new_actions client_one (forceStop client_one))"
    by (simp add: client_one_def new_actions_def forceStop_def kill_process_def
          close_stdin_def close_stdout_def stop_rpc_def)
  show ?thesis
    using external killed
      external_endpoint_never_terminated[where c = external_client]
      external_endpoint_never_terminated
        [where c = client_one and pid = 4242 and s = SIGKILL]
    by simp
qed

subsection \<open>The models cache\<close>

lemma listModels_success_cached:
  "listModels srv decode c = (Inr models, c') \<Longrightarrow> cached models c'"
  by (auto simp: listModels_def cached_def request_def Let_def
           split: if_splits option.splits sum.splits prod.splits)

lemma listModels_cached:
  "cached models c \<Longrightarrow> listModels srv decode c = (Inr models, c)"
  by (simp add: listModels_def cached_def)

lemma ping_keeps:
  "cached models c \<Longrightarrow> cached models (snd (ping srv decode msg c))
     \<and> models_requests (snd (ping srv decode msg c)) = models_requests c"
  by (auto simp: ping_def cached_def request_def Let_def models_requests_def split: sum.splits)

lemma verify_keeps:
  "cached models c \<Longrightarrow> cached models (snd (verifyProtocolVersion srv decode expected c))
     \<and> models_requests (snd (verifyProtocolVersion srv decode expected c)) = models_requests c"
  using ping_keeps[of models c srv decode "[]"]
  by (auto simp: verifyProtocolVersion_def split: prod.splits sum.splits option.splits)

lemma start_body_keeps:
  assumes "cached models c"
  shows "cached models (snd (start_body os srv decode expected c))
     \<and> models_requests (snd (start_body os srv decode expected c)) = models_requests c"
proof (cases "\<not> isExternalServer c \<and> fst (startCLIServer os c) \<noteq> None")
  case True
  then obtain e where e: "fst (startCLIServer os c) = Some e" by auto
  then have "start_body os srv decode expected c = (Some e, snd (startCLIServer os c))"
    using True by (cases "startCLIServer os c") (simp add: start_body_def)
  then show ?thesis
    using assms startCLIServer_keeps[of os c]
    by (simp add: cached_def models_requests_def)
next
  case False
  let ?c1 = "snd (if \<not> isExternalServer c then startCLIServer os c else (None, c))"
  have body: "start_body os srv decode expected c
          = verifyProtocolVersion srv decode expected (connectToServer ?c1)"
    using False by (cases "startCLIServer os c") (auto simp: start_body_def)
  have c1: "modelsCache ?c1 = modelsCache c \<and> wire ?c1 = wire c"
    using startCLIServer_keeps[of os c] by simp
  have "cached models (connectToServer ?c1)"
    using assms c1 connectToServer_keeps[of ?c1] by (simp add: cached_def)
  moreover have "models_requests (connectToServer ?c1) = models_requests c"
    using c1 connectToServer_keeps[of ?c1] by (simp add: models_requests_def)
  ultimately show ?thesis
    using verify_keeps[of models "connectToServer ?c1" srv decode expected] body by simp
qed

lemma start_keeps:
  assumes "cached models c"
  shows "cached models (snd (start os srv decode expected c))
     \<and> models_requests (snd (start os srv decode expected c)) = models_requests c"
proof (cases "state c = Connected")
  case True
  then show ?thesis using assms by (simp add: start_def)
next
  case False
  have "cached models (c\<lparr>state := Connecting\<rparr>)" using assms by (simp add: cached_def)
  then have "cached models (snd (start_body os srv decode expected (c\<lparr>state := Connecting\<rparr>)))
     \<and> models_requests (snd (start_body os srv decode expected (c\<lparr>state := Connecting\<rparr>)))
         = models_requests (c\<lparr>state := Connecting\<rparr>)"
    by (rule start_body_keeps)
  then show ?thesis
    using False
    by (auto simp: start_def cached_def models_requests_def split: prod.splits option.splits)
qed

lemma perform_keeps:
  assumes "cached models c"
  shows "cached models (perform call c)
     \<and> models_requests (perform call c) = models_requests c"
proof (cases call)
  case (CallStart os srv decode expected)
  then show ?thesis using assms start_keeps[of models c os srv decode expected] by simp
next
  case (CallPing srv decode msg)
  then show ?thesis using assms ping_keeps[of models c srv decode msg] by simp
next
  case (CallListModels srv decode)
  then show ?thesis using assms listModels_cached[of models c srv decode] by simp
next
  case (CallOnLifecycle handler)
  then show ?thesis using assms
    by (simp add: onLifecycle_def Let_def cached_def models_requests_def)
next
  case (CallOnLifecycleOf evType handler)
  then show ?thesis using assms
    by (simp add: onLifecycleOf_def Let_def cached_def models_requests_def)
next
  case (CallUnsubscribe ident)
  then show ?thesis using assms
    by (simp add: unsubscribe_def cached_def models_requests_def)
qed

lemma perform_all_keeps:
  "cached models c \<Longrightarrow> cached models (perform_all calls c)
     \<and> models_requests (perform_all calls c) = models_requests c"
proof (induction calls arbitrary: c)
  case Nil
  then show ?case by simp
next
  case (Cons call calls)
  then show ?case using perform_keeps[of models c call] by simp
qed

lemma stop_clears_cache:
  "fst (stop c) = Inr errors \<Longrightarrow>
     modelsCache (snd (stop c)) = None \<and> rpcClient (snd (stop c)) = None"
  by (auto simp: stop_def kill_process_def close_stdin_def close_stdout_def stop_rpc_def
           split: sum.splits option.splits)

lemma forceStop_clears_cache:
  "modelsCache (forceStop c) = None \<and> rpcClient (forceStop c) = None"
  by (auto simp: forceStop_def kill_process_def close_stdin_def close_stdout_def stop_rpc_def
           split: option.splits)

text \<open>
  C10. After a call of \<open>listModels\<close> that returned \<open>models\<close>, and after any further calls
  of \<open>start\<close>, \<open>ping\<close>, \<open>listModels\<close>, \<open>onLifecycle\<close> and of an unsubscribe closure, a call of
  \<open>listModels\<close> returns \<open>models\<close> again, whatever the server would answer now, leaves the
  client as it is, and no \<open>models.list\<close> request has been written since the first call.
  \<open>forceStop\<close>, and \<open>stop\<close> when it returns, leave the cache empty.
\<close>

theorem listModels_cached_until_stop:
  assumes "listModels srv decode c = (Inr models, c')"
  shows "listModels srv' decode' (perform_all calls c') = (Inr models, perform_all calls c')
         \<and> models_requests (perform_all calls c') = models_requests c'
         \<and> modelsCache (forceStop (perform_all calls c')) = None
         \<and> (fst (stop (perform_all calls c')) = Inr errors \<longrightarrow>
              modelsCache (snd (stop (perform_all calls c'))) = None)"
proof -
  have "cached models c'" using assms by (rule listModels_success_cached)
  then have "cached models (perform_all calls c')
     \<and> models_requests (perform_all calls c') = models_requests c'"
    by (rule perform_all_keeps)
  then show ?thesis
    using listModels_cached[of models "perform_all calls c'" srv' decode']
      stop_clears_cache[of "perform_all calls c'" errors]
      forceStop_clears_cache[of "perform_all calls c'"]
    by simp
qed

theorem listModels_cached_witness:
  "fst (listModels (answer ''model-a'') models_from_json client_one) = Inr [''model-a'']
   \<and> fst (listModels (answer ''model-b'') models_from_json
        (perform_all [CallPing (answer ''model-b'') ping_from_json ''hi'',
                      CallListModels (answer ''model-b'') models_from_json]
           (snd (listModels (answer ''model-a'') models_from_json client_one))))
       = Inr [''model-a'']
   \<and> models_requests
        (perform_all [CallPing (answer ''model-b'') ping_from_json ''hi'',
                      CallListModels (answer ''model-b'') models_from_json]
           (snd (listModels (answer ''model-a'') models_from_json client_one)))
       = [(''models.list'', JObject [])]
   \<and> modelsCache (snd (stop
        (perform_all [CallPing (answer ''model-b'') ping_from_json ''hi'',
                      CallListModels (answer ''model-b'') models_from_json]
           (snd (listModels (answer ''model-a'') models_from_json client_one))))) = None"
proof -
  let ?c' = "snd (listModels (answer ''model-a'') models_from_json client_one)"
  let ?calls = "[CallPing (answer ''model-b'') ping_from_json ''hi'',
                 CallListModels (answer ''model-b'') models_from_json]"
  have returned: "fst (listModels (answer ''model-a'') models_from_json client_one)
                    = Inr [''model-a'']"
    by (simp add: listModels_def request_def Let_def client_one_def answer_def
          models_from_json_def)
  then have first: "listModels (answer ''model-a'') models_from_json client_one
                 = (Inr [''model-a''], ?c')"
    by (cases "listModels (answer ''model-a'') models_from_json client_one") simp
  have req: "models_requests ?c' = [(''models.list'', JObject [])]"
    by (simp add: listModels_def request_def Let_def client_one_def answer_def
          models_from_json_def models_requests_def)
  have stops: "fst (stop (perform_all ?calls ?c'))
                 = Inr [''Failed to destroy session s2: connection closed'']"
    by (simp add: stop_def listModels_def request_def ping_def Let_def client_one_def
          answer_def models_from_json_def ping_from_json_def session_one_def session_two_def)
  note again = listModels_cached_until_stop
      [OF first, of "answer ''model-b''" models_from_json ?calls
         "[''Failed to destroy session s2: connection closed'']"]
  show ?thesis
    using again returned req stops by simp
qed


end
